theory Spec2Isabelle
  imports Complex_Main
begin

section \<open>Card records and the in-memory store (cardsStore.js)\<close>

text \<open>
  JavaScript values are modelled as follows. A string-valued field that may hold
  \<open>null\<close> or be \<open>undefined\<close> is a \<open>string option\<close>; a value is truthy when it is a
  non-empty string. A \<open>Date\<close> is the number of milliseconds it denotes. Strings are
  lists of 8-bit characters.
\<close>

datatype card_status = waiting_for_email | email_sent | picked_up

text \<open>
  What the \<open>email\<close> property of a card or an owner can hold. It is a string, except
  for the value the identity table hands out under a property name that every plain
  object inherits from \<open>Object.prototype\<close>: \<open>Inherited k\<close> is the inherited member
  \<open>k\<close> itself (a function, or the prototype object for \<open>__proto__\<close>), which is not
  a string and is truthy.
\<close>

datatype email_value = Address string | Inherited string

type_synonym timestamp = nat

record card =
  id_card :: string
  redId :: "string option"
  fullName :: "string option"
  email :: "email_value option"
  source :: string
  finderContact :: "string option"
  locationDescription :: "string option"
  boxId :: "string option"
  pickupCode :: "string option"
  status :: card_status
  createdAt :: timestamp
  openRequestedAt :: "timestamp option"
  pickedUpAt :: "timestamp option"

text \<open>The argument object of \<open>createCard\<close>: every property may be left out.\<close>

record card_data =
  d_redId :: "string option"
  d_fullName :: "string option"
  d_email :: "email_value option"
  d_source :: "string option"
  d_finderContact :: "string option"
  d_locationDescription :: "string option"
  d_boxId :: "string option"
  d_pickupCode :: "string option"
  d_status :: "card_status option"

text \<open>
  The partial object handed to \<open>updateCard\<close>: \<open>None\<close> is a property that is not
  part of the object, \<open>Some v\<close> assigns \<open>v\<close> (which may itself be \<open>null\<close>).
\<close>

record card_updates =
  u_redId :: "string option option"
  u_fullName :: "string option option"
  u_email :: "email_value option option"
  u_pickupCode :: "string option option"
  u_status :: "card_status option"
  u_pickedUpAt :: "timestamp option"

definition no_updates :: card_updates where
  "no_updates = \<lparr>u_redId = None, u_fullName = None, u_email = None,
     u_pickupCode = None, u_status = None, u_pickedUpAt = None\<rparr>"

definition truthy :: "string option \<Rightarrow> bool" where
  "truthy v = (case v of None \<Rightarrow> False | Some s \<Rightarrow> s \<noteq> [])"

text \<open>\<open>v || null\<close> on a string-or-missing value.\<close>

definition or_null :: "string option \<Rightarrow> string option" where
  "or_null v = (if truthy v then v else None)"

text \<open>The same for an email value.\<close>

definition truthy_email :: "email_value option \<Rightarrow> bool" where
  "truthy_email v =
     (case v of None \<Rightarrow> False | Some (Address a) \<Rightarrow> a \<noteq> [] | Some (Inherited k) \<Rightarrow> True)"

definition or_null_email :: "email_value option \<Rightarrow> email_value option" where
  "or_null_email v = (if truthy_email v then v else None)"

text \<open>
  \<open>createCard\<close>: the defaults \<open>x || null\<close> come first and the trailing spread of
  \<open>cardData\<close> assigns every supplied property again with its own value, so a supplied
  property is stored as given and a missing one gets the default. The fresh identifier
  (\<open>crypto.randomUUID()\<close>) and the clock are arguments.
\<close>

definition createCard :: "string \<Rightarrow> timestamp \<Rightarrow> card_data \<Rightarrow> card list \<Rightarrow> card \<times> card list" where
  "createCard uuid now cardData cardsStore =
     (let c = \<lparr>id_card = uuid,
                redId = d_redId cardData,
                fullName = d_fullName cardData,
                email = d_email cardData,
                source = (case d_source cardData of None \<Rightarrow> ''web'' | Some s \<Rightarrow> s),
                finderContact = d_finderContact cardData,
                locationDescription = d_locationDescription cardData,
                boxId = d_boxId cardData,
                pickupCode = d_pickupCode cardData,
                status = (case d_status cardData of None \<Rightarrow> waiting_for_email | Some s \<Rightarrow> s),
                createdAt = now,
                openRequestedAt = None,
                pickedUpAt = None\<rparr>
      in (c, cardsStore @ [c]))"

definition findCardById :: "string \<Rightarrow> card list \<Rightarrow> card option" where
  "findCardById cardId cardsStore = find (\<lambda>c. id_card c = cardId) cardsStore"

definition findCardByPickupCode :: "string \<Rightarrow> string \<Rightarrow> card list \<Rightarrow> card option" where
  "findCardByPickupCode code box cardsStore =
     find (\<lambda>c. pickupCode c = Some code \<and> boxId c = Some box) cardsStore"

text \<open>\<open>Object.assign(card, updates)\<close>.\<close>

definition assign :: "card \<Rightarrow> card_updates \<Rightarrow> card" where
  "assign c u =
     c\<lparr>redId := (case u_redId u of None \<Rightarrow> redId c | Some v \<Rightarrow> v),
       fullName := (case u_fullName u of None \<Rightarrow> fullName c | Some v \<Rightarrow> v),
       email := (case u_email u of None \<Rightarrow> email c | Some v \<Rightarrow> v),
       pickupCode := (case u_pickupCode u of None \<Rightarrow> pickupCode c | Some v \<Rightarrow> v),
       status := (case u_status u of None \<Rightarrow> status c | Some v \<Rightarrow> v),
       pickedUpAt := (case u_pickedUpAt u of None \<Rightarrow> pickedUpAt c | Some t \<Rightarrow> Some t)\<rparr>"

text \<open>
  \<open>updateCard\<close> mutates the object that \<open>findCardById\<close> returns, that is the first
  card of the array that carries the identifier; nothing happens when there is none.
\<close>

fun updateCard :: "string \<Rightarrow> card_updates \<Rightarrow> card list \<Rightarrow> card list" where
  "updateCard cardId u [] = []"
| "updateCard cardId u (c # cs) =
     (if id_card c = cardId then assign c u # cs else c # updateCard cardId u cs)"

section \<open>POST /pickup-request\<close>

datatype pickup_response =
    PickupBadRequest
  | PickupNotOk string
  | PickupOk string

definition pickup_request ::
  "timestamp \<Rightarrow> string option \<Rightarrow> string option \<Rightarrow> card list \<Rightarrow> pickup_response \<times> card list" where
  "pickup_request now code box cardsStore =
     (if \<not> truthy code \<or> \<not> truthy box then (PickupBadRequest, cardsStore)
      else case (code, box) of
        (Some pc, Some bx) \<Rightarrow>
          (case findCardByPickupCode pc bx cardsStore of
             None \<Rightarrow> (PickupNotOk ''invalid_code'', cardsStore)
           | Some c \<Rightarrow>
               if status c = picked_up then (PickupNotOk ''already_picked_up'', cardsStore)
               else (PickupOk (id_card c),
                     updateCard (id_card c)
                       (no_updates\<lparr>u_status := Some picked_up, u_pickedUpAt := Some now\<rparr>)
                       cardsStore))
      | _ \<Rightarrow> (PickupBadRequest, cardsStore))"

section \<open>String helpers\<close>

text \<open>
  White space as \<open>String.prototype.trim\<close> and the pattern \<open>\s\<close> see it, within
  the 8-bit range: tab, line feed, vertical tab, form feed, carriage return, space and
  the no-break space.
\<close>

definition is_space :: "char \<Rightarrow> bool" where
  "is_space c = (of_char c \<in> {9, 10, 11, 12, 13, 32, 160 :: nat})"

definition trim :: "string \<Rightarrow> string" where
  "trim s = rev (dropWhile is_space (rev (dropWhile is_space s)))"

text \<open>\<open>String(x).trim().replace(/\s+/g, '')\<close>: no white space is left anywhere.\<close>

definition strip_spaces :: "string \<Rightarrow> string" where
  "strip_spaces s = filter (\<lambda>c. \<not> is_space c) (trim s)"

text \<open>\<open>toUpperCase\<close> on ASCII text (identifiers are UUIDs: hexadecimal digits and dashes).\<close>

definition upper_char :: "char \<Rightarrow> char" where
  "upper_char c =
     (let n = (of_char c :: nat) in if 97 \<le> n \<and> n \<le> 122 then char_of (n - 32) else c)"

definition toUpperCase :: "string \<Rightarrow> string" where
  "toUpperCase s = map upper_char s"

section \<open>Pickup codes (generatePickupCode)\<close>

definition allowedDigits :: "string list" where
  "allowedDigits = [''1'', ''2'', ''3'', ''4'']"

text \<open>
  One round of the loop body: \<open>Math.floor(r * allowedDigits.length)\<close> indexes the
  array; an index outside the array reads \<open>undefined\<close>, which \<open>+=\<close> appends as text.
\<close>

definition pick_digit :: "real \<Rightarrow> string" where
  "pick_digit r =
     (let randomIndex = \<lfloor>r * real (length allowedDigits)\<rfloor>
      in if 0 \<le> randomIndex \<and> randomIndex < int (length allowedDigits)
         then allowedDigits ! nat randomIndex else ''undefined'')"

text \<open>The \<open>for\<close> loop; \<open>rnd i\<close> is what the \<open>i\<close>-th call of \<open>Math.random()\<close> returns.\<close>

function generatePickupCode_loop :: "(nat \<Rightarrow> real) \<Rightarrow> nat \<Rightarrow> nat \<Rightarrow> string \<Rightarrow> string" where
  "generatePickupCode_loop rnd len i code =
     (if i < len then generatePickupCode_loop rnd len (Suc i) (code @ pick_digit (rnd i))
      else code)"
  by pat_completeness auto
termination
  by (relation "measure (\<lambda>(rnd, len, i, code). len - i)") auto

definition generatePickupCode :: "(nat \<Rightarrow> real) \<Rightarrow> nat \<Rightarrow> string" where
  "generatePickupCode rnd len = generatePickupCode_loop rnd len 0 []"

section \<open>Identity resolution (redIdEmailMap.js)\<close>

text \<open>The table as the object literal lists it.\<close>

definition redIdEmailMap :: "(string \<times> string) list" where
  "redIdEmailMap =
     [(''132264610'', ''ajasti7720@sdsu.edu''),
      (''132274230'', ''ckotsiopulos5746@sdsu.edu''),
      (''131740957'', ''ngaribi3916sdsu.edu''),
      (''132264610'', ''ajasti7720@sdsu.edu'')]"

text \<open>
  The table is a plain object, so \<open>redIdEmailMap[key]\<close> also finds the members it
  inherits from \<open>Object.prototype\<close>. These are their names.
\<close>

definition inherited_keys :: "string list" where
  "inherited_keys =
     [''constructor'', ''__defineGetter__'', ''__defineSetter__'', ''hasOwnProperty'',
      ''__lookupGetter__'', ''__lookupSetter__'', ''isPrototypeOf'',
      ''propertyIsEnumerable'', ''toString'', ''valueOf'', ''__proto__'',
      ''toLocaleString'']"

text \<open>\<open>redIdEmailMap[key]\<close>: an own key first, an inherited member otherwise.\<close>

definition table_lookup :: "string \<Rightarrow> email_value option" where
  "table_lookup key =
     (case map_of redIdEmailMap key of
        Some a \<Rightarrow> Some (Address a)
      | None \<Rightarrow> if key \<in> set inherited_keys then Some (Inherited key) else None)"

definition getEmailByRedId :: "string \<Rightarrow> email_value option" where
  "getEmailByRedId rid =
     (if rid = [] then None else or_null_email (table_lookup (strip_spaces rid)))"

section \<open>What a handler reads from outside the store\<close>

record extracted_info =
  ex_redId :: "string option"
  ex_fullName :: "string option"

datatype ocr_outcome = OcrThrew | OcrReturned "extracted_info option"

datatype notify_outcome = NotifyThrew | NotifyReturned bool

record environment =
  uuid :: string
  now :: timestamp
  random :: "nat \<Rightarrow> real"
  fileExists :: bool
  ocr :: ocr_outcome
  notify :: notify_outcome

section \<open>POST /found-card-photo\<close>

record photo_request =
  req_finderContact :: "string option"
  req_locationDescription :: "string option"
  req_boxId :: "string option"
  req_manualRedId :: "string option"
  req_imagePath :: "string option"

record owner =
  o_email :: email_value
  o_fullName :: "string option"
  o_redId :: string

record photo_body =
  r_cardId :: string
  r_referenceCode :: string
  r_message :: string
  r_boxId :: "string option"
  r_pickupCode :: "string option"
  r_redId :: "string option"
  r_extractedInfo :: "extracted_info option"
  r_emailSent :: bool
  r_emailAddress :: "email_value option"

datatype photo_response =
    PhotoBadRequest string
  | PhotoServerError
  | PhotoOk photo_body

text \<open>\<open>a || b\<close> on string-or-missing values.\<close>

definition or_else :: "string option \<Rightarrow> string option \<Rightarrow> string option" where
  "or_else a b = (if truthy a then a else b)"

definition photo_message ::
  "extracted_info option \<Rightarrow> string option \<Rightarrow> card \<Rightarrow> string \<Rightarrow> string" where
  "photo_message extractedInfo redIdForMessage finalCard referenceCode =
     (let m0 = (case extractedInfo of
                  None \<Rightarrow> ''Thanks! Your report has been recorded.''
                | Some i \<Rightarrow>
                    if truthy (ex_redId i) \<or> truthy (ex_fullName i)
                    then ''Thanks! We extracted information from the card.''
                    else ''Thanks! Your report has been recorded.'');
          m1 = (case redIdForMessage of
                  Some r \<Rightarrow> if r \<noteq> [] then m0 @ '' Your RedID is '' @ r @ ''.'' else m0
                | None \<Rightarrow> m0);
          m2 = (case (boxId finalCard, pickupCode finalCard) of
                  (Some b, Some p) \<Rightarrow>
                    if b \<noteq> [] \<and> p \<noteq> []
                    then m1 @ '' The card is stored at '' @ b @ ''. Pickup code: '' @ p @ ''.''
                    else m1
                | _ \<Rightarrow> m1)
      in m2 @ '' Your reference ID is '' @ referenceCode @ ''.'')"

text \<open>
  The OCR step sits in its own \<open>try\<close>: when the extractor throws, \<open>extractedInfo\<close>
  stays \<open>null\<close> and the handler goes on.
\<close>

definition ocr_info :: "ocr_outcome \<Rightarrow> extracted_info option" where
  "ocr_info outcome = (case outcome of OcrThrew \<Rightarrow> None | OcrReturned i \<Rightarrow> i)"

text \<open>
  The block \<open>REDID & NAME SELECTION\<close>:
  \<open>redIdToUse = trimmedManualRedId || extractedRedId\<close>.
\<close>

definition select_redId :: "string option \<Rightarrow> extracted_info option \<Rightarrow> string option" where
  "select_redId manualRedId extractedInfo =
     (let trimmedManualRedId = map_option trim manualRedId;
          extractedRedId = (case extractedInfo of
                              None \<Rightarrow> None
                            | Some i \<Rightarrow> or_null (ex_redId i))
      in or_else trimmedManualRedId extractedRedId)"

definition select_fullName :: "extracted_info option \<Rightarrow> string option" where
  "select_fullName extractedInfo =
     (case extractedInfo of None \<Rightarrow> None | Some i \<Rightarrow> or_null (ex_fullName i))"

text \<open>
  The owner found for the identifier in use, if the table knows it
  (the block \<open>EMAIL LOOKUP\<close>).
\<close>

definition lookup_owner :: "string option \<Rightarrow> string option \<Rightarrow> owner option" where
  "lookup_owner redIdToUse extractedFullName =
     (case redIdToUse of
        None \<Rightarrow> None
      | Some r \<Rightarrow>
          if r = [] then None
          else let normalizedRedId = strip_spaces r
               in (case getEmailByRedId normalizedRedId of
                     None \<Rightarrow> None
                   | Some e \<Rightarrow>
                       if \<not> truthy_email (Some e) then None
                       else Some \<lparr>o_email = e, o_fullName = or_null extractedFullName,
                                  o_redId = normalizedRedId\<rparr>))"

text \<open>
  The handler, from request to answer, with no other request served while it waits
  for the extractor and the notifier. The card read back as \<open>currentCard\<close> is only
  handed to the notifier, whose result comes from the environment; \<open>finalCard\<close>
  exists because the card was just pushed, the other branch stands for the handler's
  catch-all. The body is the object handed to \<open>res.json\<close>.
\<close>

definition found_card_photo ::
  "environment \<Rightarrow> photo_request \<Rightarrow> card list \<Rightarrow> photo_response \<times> card list" where
  "found_card_photo env req cardsStore =
     (case req_imagePath req of
        None \<Rightarrow> (PhotoBadRequest ''No image file provided'', cardsStore)
      | Some imagePath \<Rightarrow>
        if \<not> fileExists env
        then (PhotoBadRequest ''Uploaded file not found on server'', cardsStore)
        else
          let code = (if truthy (req_boxId req)
                      then Some (generatePickupCode (random env) 4) else None);
              (card, s1) = createCard (uuid env) (now env)
                 \<lparr>d_redId = None, d_fullName = None, d_email = None,
                  d_source = Some ''web'',
                  d_finderContact = or_null (req_finderContact req),
                  d_locationDescription = or_null (req_locationDescription req),
                  d_boxId = or_null (req_boxId req),
                  d_pickupCode = code,
                  d_status = Some waiting_for_email\<rparr> cardsStore;
              extractedInfo = ocr_info (ocr env);
              redIdToUse = select_redId (req_manualRedId req) extractedInfo;
              extractedFullName = select_fullName extractedInfo;
              s2 = (if truthy redIdToUse \<or> truthy extractedFullName
                    then updateCard (id_card card)
                           (no_updates\<lparr>u_redId := Some (or_null redIdToUse),
                                       u_fullName := Some (or_null extractedFullName)\<rparr>) s1
                    else s1);
              ownerFound = lookup_owner redIdToUse extractedFullName;
              (emailSentStatus, emailAddress, s3) =
                 (case ownerFound of
                    None \<Rightarrow> (False, None, s2)
                  | Some ow \<Rightarrow>
                      let nameUpdate = Some (or_else (o_fullName ow) (or_null extractedFullName))
                      in (case notify env of
                            NotifyReturned True \<Rightarrow>
                              (True, Some (o_email ow),
                               updateCard (id_card card)
                                 (no_updates\<lparr>u_status := Some email_sent,
                                             u_email := Some (Some (o_email ow)),
                                             u_fullName := nameUpdate\<rparr>) s2)
                          | NotifyReturned False \<Rightarrow>
                              (False, Some (o_email ow),
                               updateCard (id_card card)
                                 (no_updates\<lparr>u_email := Some (Some (o_email ow)),
                                             u_fullName := nameUpdate\<rparr>) s2)
                          | NotifyThrew \<Rightarrow>
                              (False, Some (o_email ow),
                               updateCard (id_card card)
                                 (no_updates\<lparr>u_email := Some (Some (o_email ow)),
                                             u_fullName := nameUpdate\<rparr>) s2)))
          in (case findCardById (id_card card) s3 of
                None \<Rightarrow> (PhotoServerError, s3)
              | Some finalCard \<Rightarrow>
                  let referenceCode = toUpperCase (take 8 (id_card card));
                      redIdForMessage = or_else redIdToUse (redId finalCard)
                  in (PhotoOk
                        \<lparr>r_cardId = id_card finalCard,
                         r_referenceCode = referenceCode,
                         r_message = photo_message extractedInfo redIdForMessage finalCard
                                       referenceCode,
                         r_boxId = or_null (boxId finalCard),
                         r_pickupCode = or_null (pickupCode finalCard),
                         r_redId = or_null (or_else redIdForMessage (redId finalCard)),
                         r_extractedInfo = extractedInfo,
                         r_emailSent = emailSentStatus,
                         r_emailAddress = or_null_email emailAddress\<rparr>, s3)))"

section \<open>POST /found-card-redid\<close>

datatype redid_response =
    RedidBadRequest
  | RedidOk string string

definition found_card_redid ::
  "environment \<Rightarrow> string option \<Rightarrow> string option \<Rightarrow> card list \<Rightarrow> redid_response \<times> card list" where
  "found_card_redid env rid box cardsStore =
     (case (rid, box) of
        (Some r, Some b) \<Rightarrow>
          if r = [] \<or> b = [] then (RedidBadRequest, cardsStore)
          else
            let code = generatePickupCode (random env) 4;
                (card, s1) = createCard (uuid env) (now env)
                   \<lparr>d_redId = Some r, d_fullName = None, d_email = None,
                    d_source = Some ''box'', d_finderContact = None,
                    d_locationDescription = None, d_boxId = Some b,
                    d_pickupCode = Some code,
                    d_status = Some waiting_for_email\<rparr> cardsStore;
                s2 = (case or_null_email (getEmailByRedId r) of
                        None \<Rightarrow> s1
                      | Some e \<Rightarrow>
                          (case notify env of
                             NotifyReturned True \<Rightarrow>
                               updateCard (id_card card)
                                 (no_updates\<lparr>u_status := Some email_sent,
                                             u_email := Some (Some e),
                                             u_fullName := Some None\<rparr>) s1
                           | NotifyReturned False \<Rightarrow>
                               updateCard (id_card card)
                                 (no_updates\<lparr>u_email := Some (Some e),
                                             u_fullName := Some None\<rparr>) s1
                           | NotifyThrew \<Rightarrow>
                               updateCard (id_card card)
                                 (no_updates\<lparr>u_email := Some (Some e),
                                             u_fullName := Some None\<rparr>) s1))
            in (RedidOk (id_card card) code, s2)
      | _ \<Rightarrow> (RedidBadRequest, cardsStore))"

section \<open>POST /cards/:id/set-email\<close>

fun status_text :: "card_status \<Rightarrow> string" where
  "status_text waiting_for_email = ''waiting_for_email''"
| "status_text email_sent = ''email_sent''"
| "status_text picked_up = ''picked_up''"

text \<open>
  \<open>SetEmailError code text\<close> is \<open>res.status(code).json({error: text})\<close>;
  \<open>SetEmailSent\<close> is the 200 answer and \<open>SetEmailNotSent\<close> the 500 answer with
  \<open>success: false\<close>, both carrying the card read back from the store.
\<close>

datatype set_email_response =
    SetEmailError nat string
  | SetEmailSent "card option"
  | SetEmailNotSent "card option"

definition set_email ::
  "environment \<Rightarrow> string \<Rightarrow> string option \<Rightarrow> card list \<Rightarrow> set_email_response \<times> card list" where
  "set_email env cardId emailArg cardsStore =
     (case emailArg of
        None \<Rightarrow> (SetEmailError 400 ''Valid email address is required'', cardsStore)
      | Some e \<Rightarrow>
        if e = [] \<or> CHR ''@'' \<notin> set e
        then (SetEmailError 400 ''Valid email address is required'', cardsStore)
        else
          (case findCardById cardId cardsStore of
             None \<Rightarrow> (SetEmailError 404 ''Card not found'', cardsStore)
           | Some crd \<Rightarrow>
               if status crd \<noteq> waiting_for_email
               then (SetEmailError 400
                       (''Card is not waiting for email. Current status: ''
                          @ status_text (status crd)), cardsStore)
               else
                 let s1 = (if truthy (boxId crd) \<and> \<not> truthy (pickupCode crd)
                           then updateCard (id_card crd)
                                  (no_updates\<lparr>u_pickupCode :=
                                     Some (Some (generatePickupCode (random env) 4))\<rparr>)
                                  cardsStore
                           else cardsStore);
                     s2 = updateCard (id_card crd)
                            (no_updates\<lparr>u_email := Some (Some (Address e))\<rparr>) s1
                 in (case notify env of
                       NotifyReturned True \<Rightarrow>
                         let s3 = updateCard (id_card crd)
                                    (no_updates\<lparr>u_status := Some email_sent\<rparr>) s2
                         in (SetEmailSent (findCardById cardId s3), s3)
                     | NotifyReturned False \<Rightarrow> (SetEmailNotSent (findCardById cardId s2), s2)
                     | NotifyThrew \<Rightarrow>
                         (SetEmailError 500 ''Failed to set email and send notification'', s2))))"

section \<open>Lookup by identifier or reference code\<close>

definition findCardByReferenceCode :: "string \<Rightarrow> card list \<Rightarrow> card option" where
  "findCardByReferenceCode referenceCode cardsStore =
     (if referenceCode = [] then None
      else let normalizedCode = toUpperCase (trim referenceCode)
           in find (\<lambda>c. toUpperCase (take 8 (id_card c)) = normalizedCode) cardsStore)"

text \<open>GET /cards/:id: \<open>None\<close> is the 404 answer, \<open>Some c\<close> the card sent back.\<close>

definition get_card :: "string \<Rightarrow> card list \<Rightarrow> card option" where
  "get_card token cardsStore =
     (let c0 = findCardById token cardsStore;
          c1 = (if c0 = None \<and> length token = 8
                then findCardByReferenceCode token cardsStore else c0);
          c2 = (if c1 = None then findCardByReferenceCode token cardsStore else c1)
      in c2)"

section \<open>Requests in flight\<close>

text \<open>
  A handler runs without interruption only up to its next \<open>await\<close>; while it waits,
  the server serves other requests on the same store. The set-email handler waits once,
  for the notifier (\<open>await notifyOwnerOfFoundCard(owner, updatedCard)\<close>), so it runs in
  two parts. The pickup handler never waits: it runs in one part.

  \<open>set_email_begin\<close> is the part before the \<open>await\<close>: it either answers (\<open>Some\<close>
  answer) or has saved the email and now waits for the notifier (\<open>None\<close>).
\<close>

definition set_email_begin ::
  "environment \<Rightarrow> string \<Rightarrow> string option \<Rightarrow> card list \<Rightarrow> set_email_response option \<times> card list" where
  "set_email_begin env cardId emailArg cardsStore =
     (case emailArg of
        None \<Rightarrow> (Some (SetEmailError 400 ''Valid email address is required''), cardsStore)
      | Some e \<Rightarrow>
        if e = [] \<or> CHR ''@'' \<notin> set e
        then (Some (SetEmailError 400 ''Valid email address is required''), cardsStore)
        else
          (case findCardById cardId cardsStore of
             None \<Rightarrow> (Some (SetEmailError 404 ''Card not found''), cardsStore)
           | Some crd \<Rightarrow>
               if status crd \<noteq> waiting_for_email
               then (Some (SetEmailError 400
                       (''Card is not waiting for email. Current status: ''
                          @ status_text (status crd))), cardsStore)
               else
                 let s1 = (if truthy (boxId crd) \<and> \<not> truthy (pickupCode crd)
                           then updateCard (id_card crd)
                                  (no_updates\<lparr>u_pickupCode :=
                                     Some (Some (generatePickupCode (random env) 4))\<rparr>)
                                  cardsStore
                           else cardsStore);
                     s2 = updateCard (id_card crd)
                            (no_updates\<lparr>u_email := Some (Some (Address e))\<rparr>) s1
                 in (None, s2)))"

text \<open>
  \<open>set_email_finish\<close> is the part after the \<open>await\<close>, run on the store as it is
  when the notifier's result arrives. The status is not read again: a result of
  \<open>true\<close> writes \<open>email_sent\<close> on the card.
\<close>

definition set_email_finish ::
  "notify_outcome \<Rightarrow> string \<Rightarrow> card list \<Rightarrow> set_email_response \<times> card list" where
  "set_email_finish outcome cardId cardsStore =
     (case outcome of
        NotifyReturned True \<Rightarrow>
          let s3 = updateCard cardId (no_updates\<lparr>u_status := Some email_sent\<rparr>) cardsStore
          in (SetEmailSent (findCardById cardId s3), s3)
      | NotifyReturned False \<Rightarrow> (SetEmailNotSent (findCardById cardId cardsStore), cardsStore)
      | NotifyThrew \<Rightarrow>
          (SetEmailError 500 ''Failed to set email and send notification'', cardsStore))"

text \<open>
  The server between two events: the store, the set-email requests that wait for the
  notifier (each with the identifier of its card), and the answers sent so far.
\<close>

datatype answer = PickupAnswer pickup_response | SetEmailAnswer set_email_response

record server =
  cards :: "card list"
  waiting :: "string list"
  answers :: "answer list"

definition boot :: "card list \<Rightarrow> server" where
  "boot s = \<lparr>cards = s, waiting = [], answers = []\<rparr>"

text \<open>
  What the event loop hands to the handlers: a pickup request, a set-email request, or
  the notifier's result for the \<open>k\<close>-th waiting set-email request.
\<close>

datatype event =
    PickupArrives timestamp "string option" "string option"
  | SetEmailArrives environment string "string option"
  | NotifierSettles nat notify_outcome

fun deliver :: "event \<Rightarrow> server \<Rightarrow> server" where
  "deliver (PickupArrives t code box) sv =
     (case pickup_request t code box (cards sv) of
        (r, s') \<Rightarrow> sv\<lparr>cards := s', answers := answers sv @ [PickupAnswer r]\<rparr>)"
| "deliver (SetEmailArrives env cardId e) sv =
     (case set_email_begin env cardId e (cards sv) of
        (Some r, s') \<Rightarrow> sv\<lparr>cards := s', answers := answers sv @ [SetEmailAnswer r]\<rparr>
      | (None, s') \<Rightarrow> sv\<lparr>cards := s', waiting := waiting sv @ [cardId]\<rparr>)"
| "deliver (NotifierSettles k outcome) sv =
     (if k < length (waiting sv)
      then (case set_email_finish outcome (waiting sv ! k) (cards sv) of
              (r, s') \<Rightarrow> sv\<lparr>cards := s',
                                waiting := take k (waiting sv) @ drop (Suc k) (waiting sv),
                                answers := answers sv @ [SetEmailAnswer r]\<rparr>)
      else sv)"

fun run_events :: "event list \<Rightarrow> server \<Rightarrow> server" where
  "run_events [] sv = sv"
| "run_events (ev # evs) sv = run_events evs (deliver ev sv)"


text \<open>The order of the life cycle: waiting, then notified, then picked up.\<close>

fun rank :: "card_status \<Rightarrow> nat" where
  "rank waiting_for_email = 0"
| "rank email_sent = 1"
| "rank picked_up = 2"

section \<open>Sample data\<close>

definition sample_waiting :: card where
  "sample_waiting =
     \<lparr>id_card = ''a1b2c3d4-0000-4000-8000-000000000001'', redId = None, fullName = None,
      email = None, source = ''web'', finderContact = None, locationDescription = None,
      boxId = Some ''BOX_1'', pickupCode = Some ''1234'', status = waiting_for_email,
      createdAt = 0, openRequestedAt = None, pickedUpAt = None\<rparr>"

definition sample_taken :: card where
  "sample_taken =
     \<lparr>id_card = ''0f9e8d7c-0000-4000-8000-000000000000'', redId = Some ''132264610'',
      fullName = None, email = Some (Address ''ajasti7720@sdsu.edu''), source = ''box'',
      finderContact = None, locationDescription = None,
      boxId = Some ''BOX_1'', pickupCode = Some ''1234'', status = picked_up,
      createdAt = 0, openRequestedAt = None, pickedUpAt = Some 5\<rparr>"

definition sample_env :: environment where
  "sample_env =
     \<lparr>uuid = ''e5f6a7b8-0000-4000-8000-000000000009'', now = 100, random = (\<lambda>i. 1 / 2),
      fileExists = True, ocr = OcrThrew, notify = NotifyReturned True\<rparr>"

definition sample_shared :: "card list" where
  "sample_shared = [sample_taken, sample_waiting]"

definition sample_request :: photo_request where
  "sample_request =
     \<lparr>req_finderContact = None, req_locationDescription = Some ''Library, first floor'',
      req_boxId = Some ''BOX_1'', req_manualRedId = None,
      req_imagePath = Some ''uploads/card-1700000000000-42.jpg''\<rparr>"

definition sample_request_manual :: photo_request where
  "sample_request_manual = sample_request\<lparr>req_manualRedId := Some '' 132264610 ''\<rparr>"

definition sample_env_unsent :: environment where
  "sample_env_unsent = sample_env\<lparr>notify := NotifyReturned False\<rparr>"

definition sample_env_ocr :: environment where
  "sample_env_ocr =
     sample_env\<lparr>ocr := OcrReturned (Some \<lparr>ex_redId = Some ''132274230'',
                                            ex_fullName = Some ''Pat Doe''\<rparr>)\<rparr>"

definition sample_second :: card where
  "sample_second =
     \<lparr>id_card = ''77aa88bb-0000-4000-8000-000000000002'', redId = None, fullName = None,
      email = None, source = ''web'', finderContact = None, locationDescription = None,
      boxId = Some ''BOX_1'', pickupCode = Some ''1234'', status = waiting_for_email,
      createdAt = 3, openRequestedAt = None, pickedUpAt = None\<rparr>"

definition sample_race :: "event list" where
  "sample_race =
     [SetEmailArrives sample_env ''a1b2c3d4-0000-4000-8000-000000000001''
        (Some ''owner@sdsu.edu''),
      PickupArrives 9 (Some ''1234'') (Some ''BOX_1''),
      NotifierSettles 0 (NotifyReturned True),
      PickupArrives 20 (Some ''1234'') (Some ''BOX_1'')]"

definition sample_request_inherited :: photo_request where
  "sample_request_inherited = sample_request\<lparr>req_manualRedId := Some ''constructor''\<rparr>"

section \<open>Facts about the store\<close>

lemma assign_id [simp]: "id_card (assign c u) = id_card c"
  by (simp add: assign_def)

lemma assign_boxId [simp]: "boxId (assign c u) = boxId c"
  by (simp add: assign_def)

lemma updateCard_ids [simp]: "map id_card (updateCard i u s) = map id_card s"
  by (induction s) auto

lemma updateCard_length [simp]: "length (updateCard i u s) = length s"
  by (induction s) auto

lemma updateCard_fresh_append:
  "i \<notin> id_card ` set s \<Longrightarrow> id_card c = i \<Longrightarrow> updateCard i u (s @ [c]) = s @ [assign c u]"
  by (induction s) auto

text \<open>With pairwise different identifiers an update touches exactly the card it names.\<close>

lemma updateCard_map:
  "distinct (map id_card s) \<Longrightarrow>
   updateCard i u s = map (\<lambda>c. if id_card c = i then assign c u else c) s"
proof (induction s)
  case Nil then show ?case by simp
next
  case (Cons c cs)
  show ?case
  proof (cases "id_card c = i")
    case True
    with Cons.prems have "\<forall>d\<in>set cs. id_card d \<noteq> i" by (auto simp: image_iff)
    then have "map (\<lambda>c. if id_card c = i then assign c u else c) cs = cs"
      by (induction cs) auto
    with True show ?thesis by simp
  next
    case False
    with Cons show ?thesis by simp
  qed
qed

lemma findCardById_fresh_append:
  "i \<notin> id_card ` set s \<Longrightarrow> id_card c = i \<Longrightarrow> findCardById i (s @ [c]) = Some c"
  by (induction s) (auto simp: findCardById_def)

lemma findCardById_Some:
  "findCardById i s = Some c \<Longrightarrow> c \<in> set s \<and> id_card c = i"
  by (auto simp: findCardById_def find_Some_iff)

lemma findCardByPickupCode_Some:
  "findCardByPickupCode pc bx s = Some c \<Longrightarrow>
   c \<in> set s \<and> pickupCode c = Some pc \<and> boxId c = Some bx"
  by (auto simp: findCardByPickupCode_def find_Some_iff)

lemma distinct_ids_unique:
  "distinct (map id_card s) \<Longrightarrow> c \<in> set s \<Longrightarrow> d \<in> set s \<Longrightarrow>
   id_card c = id_card d \<Longrightarrow> c = d"
  by (metis distinct_map inj_onD)

section \<open>Pickup requests\<close>

text \<open>
  C3 (as amended). A pickup request whose code and box are both non-empty and match no
  stored card answers \<open>{ok: false, reason: 'invalid_code'}\<close>; when the code or the
  box is empty or missing the request is turned down as a bad request (status 400)
  before any lookup. In every one of these cases the store is left as it was.
\<close>

theorem pickup_unknown_pair:
  assumes "findCardByPickupCode pc bx s = None"
  shows "pickup_request t (Some pc) (Some bx) s =
           (if pc = [] \<or> bx = [] then PickupBadRequest else PickupNotOk ''invalid_code'', s) \<and>
         pickup_request t None box s = (PickupBadRequest, s) \<and>
         pickup_request t code None s = (PickupBadRequest, s)"
  using assms by (simp add: pickup_request_def truthy_def)

theorem pickup_unknown_pair_witness:
  "findCardByPickupCode ''4321'' ''BOX_1'' [sample_waiting] = None \<and>
   pickup_request 7 (Some ''4321'') (Some ''BOX_1'') [sample_waiting] =
     (PickupNotOk ''invalid_code'', [sample_waiting])"
proof -
  have h: "findCardByPickupCode ''4321'' ''BOX_1'' [sample_waiting] = None"
    by (simp add: findCardByPickupCode_def sample_waiting_def)
  show ?thesis using h pickup_unknown_pair [OF h, of 7] by simp
qed

text \<open>
  The claim as first stated fails for an empty code: the pair matches no card, yet the
  answer is the 400 error and not \<open>invalid_code\<close>.
\<close>

theorem pickup_empty_code_counterexample:
  "findCardByPickupCode [] ''BOX_1'' [sample_waiting] = None \<and>
   fst (pickup_request 7 (Some []) (Some ''BOX_1'') [sample_waiting])
     \<noteq> PickupNotOk ''invalid_code''"
  by (simp add: findCardByPickupCode_def sample_waiting_def pickup_request_def truthy_def)

section \<open>Pickup codes are never empty\<close>

declare generatePickupCode_loop.simps [simp del]

lemma pick_digit_cases:
  assumes "0 \<le> \<lfloor>r * 4\<rfloor>" "\<lfloor>r * 4\<rfloor> < 4"
  shows "pick_digit r \<in> {''1'', ''2'', ''3'', ''4''}"
proof -
  from assms have "\<lfloor>r * 4\<rfloor> = 0 \<or> \<lfloor>r * 4\<rfloor> = 1 \<or> \<lfloor>r * 4\<rfloor> = 2 \<or> \<lfloor>r * 4\<rfloor> = 3"
    by arith
  then show ?thesis
    by (elim disjE) (simp_all add: pick_digit_def allowedDigits_def)
qed

lemma pick_digit_nonempty: "pick_digit r \<noteq> []"
proof (cases "0 \<le> \<lfloor>r * 4\<rfloor> \<and> \<lfloor>r * 4\<rfloor> < 4")
  case True
  with pick_digit_cases [of r] show ?thesis by auto
next
  case False
  then show ?thesis by (auto simp: pick_digit_def allowedDigits_def)
qed

lemma generatePickupCode_loop_unfold:
  "generatePickupCode_loop rnd len i code =
     code @ concat (map (\<lambda>j. pick_digit (rnd j)) [i..<len])"
proof (induction rnd len i code rule: generatePickupCode_loop.induct)
  case (1 rnd len i code)
  show ?case
  proof (cases "i < len")
    case True
    then have "[i..<len] = i # [Suc i..<len]" by (simp add: upt_rec)
    with True 1 show ?thesis
      by (subst generatePickupCode_loop.simps) simp
  next
    case False
    then show ?thesis by (subst generatePickupCode_loop.simps) simp
  qed
qed

lemma generatePickupCode_4:
  "generatePickupCode rnd 4 =
     pick_digit (rnd 0) @ pick_digit (rnd 1) @ pick_digit (rnd 2) @ pick_digit (rnd 3)"
proof -
  have "[0..<4] = [0, 1, 2, Suc 2]" by (simp add: upt_rec)
  then show ?thesis
    by (simp add: generatePickupCode_def generatePickupCode_loop_unfold numeral_3_eq_3)
qed

lemma generatePickupCode_nonempty: "generatePickupCode rnd 4 \<noteq> []"
  by (simp add: generatePickupCode_4 pick_digit_nonempty)

lemma pick_digit_in_range:
  assumes "0 \<le> r" "r < 1"
  shows "pick_digit r \<in> {''1'', ''2'', ''3'', ''4''}"
proof -
  have lo: "0 \<le> \<lfloor>r * 4\<rfloor>" using assms by simp
  have "r * 4 < 4" using assms by simp
  then have hi: "\<lfloor>r * 4\<rfloor> < 4" by linarith
  from lo hi show ?thesis by (rule pick_digit_cases)
qed

section \<open>The card a pickup changes\<close>

lemma updateCard_replace:
  assumes "distinct (map id_card s)" "c \<in> set s"
  shows "updateCard (id_card c) u s = map (\<lambda>d. if d = c then assign c u else d) s"
proof -
  have "map (\<lambda>d. if id_card d = id_card c then assign d u else d) s
      = map (\<lambda>d. if d = c then assign c u else d) s"
    using distinct_ids_unique [OF assms(1) _ assms(2)] by auto
  then show ?thesis using assms(1) by (simp add: updateCard_map)
qed

lemma pickup_first_call:
  assumes "distinct (map id_card s)" "pc \<noteq> []" "bx \<noteq> []"
      and "findCardByPickupCode pc bx s = Some c" "status c \<noteq> picked_up"
  shows "pickup_request t (Some pc) (Some bx) s =
           (PickupOk (id_card c),
            map (\<lambda>d. if d = c then c\<lparr>status := picked_up, pickedUpAt := Some t\<rparr> else d) s)"
proof -
  have cs: "c \<in> set s" using assms(4) by (simp add: findCardByPickupCode_Some)
  have "assign c (no_updates\<lparr>u_status := Some picked_up, u_pickedUpAt := Some t\<rparr>)
        = c\<lparr>status := picked_up, pickedUpAt := Some t\<rparr>"
    by (simp add: assign_def no_updates_def)
  with updateCard_replace [OF assms(1) cs] assms show ?thesis
    by (simp add: pickup_request_def truthy_def)
qed

lemma sample_code [simp]: "generatePickupCode (\<lambda>i. 1 / 2) 4 = ''3333''"
  by (simp add: generatePickupCode_4 pick_digit_def allowedDigits_def)


section \<open>Pickup from any state that is not final\<close>

text \<open>
  C5. With pairwise different identifiers, a pickup request whose non-empty code and
  box find a card that is still waiting for its email (never notified) succeeds just
  as it does for a notified card: the answer is \<open>ok: true\<close> for that card, and in the
  store exactly that card has become \<open>picked_up\<close> with \<open>pickedUpAt\<close> set to the time
  of the call.
\<close>

theorem pickup_from_any_open_state:
  assumes "distinct (map id_card s)" and "pc \<noteq> []" and "bx \<noteq> []"
      and "findCardByPickupCode pc bx s = Some c"
      and "status c = waiting_for_email \<or> status c = email_sent"
  shows "pickup_request t (Some pc) (Some bx) s =
           (PickupOk (id_card c),
            map (\<lambda>d. if d = c then c\<lparr>status := picked_up, pickedUpAt := Some t\<rparr> else d) s)"
proof -
  from assms(5) have "status c \<noteq> picked_up" by auto
  with assms(1-4) show ?thesis by (rule pickup_first_call)
qed

theorem pickup_from_any_open_state_witness:
  "distinct (map id_card [sample_waiting]) \<and>
   findCardByPickupCode ''1234'' ''BOX_1'' [sample_waiting] = Some sample_waiting \<and>
   status sample_waiting = waiting_for_email \<and>
   pickup_request 7 (Some ''1234'') (Some ''BOX_1'') [sample_waiting] =
     (PickupOk (id_card sample_waiting),
      [sample_waiting\<lparr>status := picked_up, pickedUpAt := Some 7\<rparr>])"
proof -
  have h1: "distinct (map id_card [sample_waiting])" by simp
  have h2: "''1234'' \<noteq> []" and h3: "''BOX_1'' \<noteq> []" by simp_all
  have h4: "findCardByPickupCode ''1234'' ''BOX_1'' [sample_waiting] = Some sample_waiting"
    by (simp add: findCardByPickupCode_def sample_waiting_def)
  have h5: "status sample_waiting = waiting_for_email \<or> status sample_waiting = email_sent"
    by (simp add: sample_waiting_def)
  from pickup_from_any_open_state [OF h1 h2 h3 h4 h5, of 7] h1 h4 show ?thesis
    by (simp add: sample_waiting_def)
qed

section \<open>The first card that matches\<close>

lemma find_first_index:
  "i < length s \<Longrightarrow> P (s ! i) \<Longrightarrow> \<forall>m<i. \<not> P (s ! m) \<Longrightarrow> find P s = Some (s ! i)"
  unfolding find_Some_iff by auto

section \<open>Manual email assignment on a card that is not waiting\<close>

text \<open>
  C7. When the card named in a set-email request exists and its status is not
  \<open>waiting_for_email\<close>, the request fails and the store is exactly what it was, so
  neither the status nor the email of the card changes. The answer always carries
  status 400; for an email that passes validation (non-empty, with an \<open>@\<close>) it is the
  refusal ``Card is not waiting for email'' naming the current status.
\<close>

theorem set_email_rejected_unless_waiting:
  assumes "findCardById cardId s = Some c" and "status c \<noteq> waiting_for_email"
  shows "snd (set_email env cardId e s) = s \<and>
         (\<exists>msg. fst (set_email env cardId e s) = SetEmailError 400 msg) \<and>
         (\<forall>a. e = Some a \<and> a \<noteq> [] \<and> CHR ''@'' \<in> set a \<longrightarrow>
            fst (set_email env cardId e s) =
              SetEmailError 400
                (''Card is not waiting for email. Current status: '' @ status_text (status c)))"
  using assms by (auto simp: set_email_def split: option.splits)

theorem set_email_rejected_unless_waiting_witness:
  "findCardById (id_card sample_taken) sample_shared = Some sample_taken \<and>
   status sample_taken \<noteq> waiting_for_email \<and>
   set_email sample_env (id_card sample_taken) (Some ''owner@sdsu.edu'') sample_shared =
     (SetEmailError 400 ''Card is not waiting for email. Current status: picked_up'',
      sample_shared)"
proof -
  have h1: "findCardById (id_card sample_taken) sample_shared = Some sample_taken"
    by (simp add: findCardById_def sample_shared_def)
  have h2: "status sample_taken \<noteq> waiting_for_email" by (simp add: sample_taken_def)
  have st: "status_text (status sample_taken) = ''picked_up''" by (simp add: sample_taken_def)
  from set_email_rejected_unless_waiting [OF h1 h2, of sample_env "Some ''owner@sdsu.edu''"] h1 h2 st
  show ?thesis by (auto simp: prod_eq_iff)
qed

section \<open>Reference codes in any letter case\<close>

lemma upper_char_not_space [simp]: "is_space (upper_char c) = is_space c"
  by (auto simp: is_space_def upper_char_def Let_def)

lemma upper_char_idem [simp]: "upper_char (upper_char c) = upper_char c"
  by (auto simp: upper_char_def Let_def)

lemma toUpperCase_idem [simp]: "toUpperCase (toUpperCase s) = toUpperCase s"
  by (simp add: toUpperCase_def)

lemma dropWhile_upper:
  "dropWhile is_space (map upper_char s) = map upper_char (dropWhile is_space s)"
  by (induction s) auto

lemma trim_toUpperCase: "trim (toUpperCase s) = toUpperCase (trim s)"
  by (simp add: trim_def toUpperCase_def dropWhile_upper rev_map)

lemma toUpperCase_Nil [simp]: "(toUpperCase s = []) = (s = [])"
  by (simp add: toUpperCase_def)

lemma lookup_same_upper:
  assumes "toUpperCase q = toUpperCase q'"
  shows "findCardByReferenceCode q s = findCardByReferenceCode q' s"
proof -
  have "toUpperCase (trim q) = toUpperCase (trim q')"
    using assms by (simp add: trim_toUpperCase [symmetric])
  moreover have "(q = []) = (q' = [])"
    using assms by (metis toUpperCase_Nil)
  ultimately show ?thesis by (simp add: findCardByReferenceCode_def)
qed

text \<open>
  C9. Two queries that agree after uppercasing get the same answer from the lookup by
  reference code, and from GET /cards/:id when neither query is a full identifier of a
  stored card. For a stored card whose identifier starts with eight characters free of
  surrounding white space (a UUID does), any letter-case variant of its reference code
  finds that card, provided no earlier card has the same reference code.
\<close>

theorem reference_code_any_case:
  assumes "toUpperCase q = toUpperCase q'"
  shows "findCardByReferenceCode q s = findCardByReferenceCode q' s \<and>
         (findCardById q s = None \<and> findCardById q' s = None \<longrightarrow> get_card q s = get_card q' s) \<and>
         (\<forall>k<length s.
            toUpperCase q = toUpperCase (take 8 (id_card (s ! k))) \<and>
            id_card (s ! k) \<noteq> [] \<and>
            trim (take 8 (id_card (s ! k))) = take 8 (id_card (s ! k)) \<and>
            (\<forall>m<k. toUpperCase (take 8 (id_card (s ! m))) \<noteq> toUpperCase (take 8 (id_card (s ! k))))
            \<longrightarrow> findCardByReferenceCode q s = Some (s ! k) \<and>
                findCardByReferenceCode q' s = Some (s ! k))"
proof -
  have same: "findCardByReferenceCode q s = findCardByReferenceCode q' s"
    using assms by (rule lookup_same_upper)
  have getc: "get_card q s = get_card q' s"
    if "findCardById q s = None" "findCardById q' s = None"
    using that same by (simp add: get_card_def Let_def)
  have hit: "findCardByReferenceCode q s = Some (s ! k)"
    if k: "k < length s"
      and u: "toUpperCase q = toUpperCase (take 8 (id_card (s ! k)))"
      and ne: "id_card (s ! k) \<noteq> []"
      and tr: "trim (take 8 (id_card (s ! k))) = take 8 (id_card (s ! k))"
      and fst: "\<forall>m<k. toUpperCase (take 8 (id_card (s ! m))) \<noteq> toUpperCase (take 8 (id_card (s ! k)))"
    for k
  proof -
    have "toUpperCase (trim q) = trim (toUpperCase (take 8 (id_card (s ! k))))"
      using u by (simp add: trim_toUpperCase [symmetric])
    then have n: "toUpperCase (trim q) = toUpperCase (take 8 (id_card (s ! k)))"
      using tr by (simp add: trim_toUpperCase)
    have "q \<noteq> []" using u ne by (metis take_eq_Nil toUpperCase_Nil zero_neq_numeral)
    with n k fst show ?thesis
      by (simp add: findCardByReferenceCode_def find_first_index)
  qed
  from same getc hit show ?thesis by (metis (no_types, lifting))
qed


theorem reference_code_any_case_witness:
  "toUpperCase ''a1b2c3d4'' = toUpperCase ''A1B2C3D4'' \<and>
   findCardByReferenceCode ''a1b2c3d4'' sample_shared = Some sample_waiting \<and>
   findCardByReferenceCode ''A1B2C3D4'' sample_shared = Some sample_waiting \<and>
   get_card ''a1b2c3d4'' sample_shared = get_card ''A1B2C3D4'' sample_shared"
proof -
  have h: "toUpperCase ''a1b2c3d4'' = toUpperCase ''A1B2C3D4''" by code_simp
  have k: "(1::nat) < length sample_shared" by (simp add: sample_shared_def)
  have c1: "sample_shared ! 1 = sample_waiting" by (simp add: sample_shared_def)
  have i1: "take 8 (id_card sample_waiting) = ''a1b2c3d4''" by (simp add: sample_waiting_def)
  have i0: "take 8 (id_card (sample_shared ! 0)) = ''0f9e8d7c''"
    by (simp add: sample_shared_def sample_taken_def)
  have u: "toUpperCase ''a1b2c3d4'' = toUpperCase (take 8 (id_card (sample_shared ! 1)))"
    unfolding c1 i1 by (rule refl)
  have ne: "id_card (sample_shared ! 1) \<noteq> []" unfolding c1 by (simp add: sample_waiting_def)
  have tr: "trim (take 8 (id_card (sample_shared ! 1))) = take 8 (id_card (sample_shared ! 1))"
    unfolding c1 i1 by (simp add: trim_def is_space_def)
  have d: "toUpperCase ''0f9e8d7c'' \<noteq> toUpperCase ''a1b2c3d4''" by code_simp
  have fst: "\<forall>m<1. toUpperCase (take 8 (id_card (sample_shared ! m)))
                   \<noteq> toUpperCase (take 8 (id_card (sample_shared ! 1)))"
    unfolding c1 i1 using d i0 by simp
  have n1: "findCardById ''a1b2c3d4'' sample_shared = None"
    by (simp add: findCardById_def sample_shared_def sample_taken_def sample_waiting_def)
  have n2: "findCardById ''A1B2C3D4'' sample_shared = None"
    by (simp add: findCardById_def sample_shared_def sample_taken_def sample_waiting_def)
  from reference_code_any_case [OF h, of sample_shared] k u ne tr fst n1 n2 c1 h
  show ?thesis by auto
qed


section \<open>A pickup while set-email waits for the notifier\<close>

text \<open>
  Run back to back, the two parts of the set-email handler are the handler itself.
\<close>

lemma set_email_in_two_parts:
  "set_email env cardId e s =
     (case set_email_begin env cardId e s of
        (Some r, s') \<Rightarrow> (r, s')
      | (None, s') \<Rightarrow> set_email_finish (notify env) cardId s')"
  by (auto simp: set_email_def set_email_begin_def set_email_finish_def Let_def
        dest: findCardById_Some
        split: option.splits notify_outcome.splits bool.splits)

lemmas race_simps =
  sample_race_def boot_def sample_waiting_def sample_second_def sample_env_def
  set_email_begin_def set_email_finish_def pickup_request_def findCardById_def
  findCardByPickupCode_def truthy_def assign_def no_updates_def Let_def

text \<open>
  C1 does not hold of the program. The schedule \<open>sample_race\<close> on a store with one
  waiting card: a set-email request for the card passes the status test, saves the
  email and waits for the notifier; a pickup request with the card's code and box is
  answered \<open>ok: true\<close> and stamps \<open>pickedUpAt\<close> with 9; the notifier reports success
  and the rest of the set-email handler writes \<open>email_sent\<close> without reading the
  status again; the second pickup request with the same code and box is answered
  \<open>ok: true\<close> once more, not \<open>already_picked_up\<close>, and \<open>pickedUpAt\<close> becomes 20.
\<close>

theorem pickup_ok_twice_in_race:
  "answers (run_events sample_race (boot [sample_waiting])) =
     [PickupAnswer (PickupOk ''a1b2c3d4-0000-4000-8000-000000000001''),
      SetEmailAnswer (SetEmailSent (Some (sample_waiting
        \<lparr>email := Some (Address ''owner@sdsu.edu''), status := email_sent,
         pickedUpAt := Some 9\<rparr>))),
      PickupAnswer (PickupOk ''a1b2c3d4-0000-4000-8000-000000000001'')] \<and>
   map pickedUpAt (cards (run_events (take 2 sample_race) (boot [sample_waiting]))) = [Some 9] \<and>
   map pickedUpAt (cards (run_events sample_race (boot [sample_waiting]))) = [Some 20]"
  by (simp add: race_simps)

text \<open>
  C4 does not hold of the program. In the same schedule the card is \<open>picked_up\<close>
  after the first pickup request and \<open>email_sent\<close> after the set-email handler has
  finished: its status has moved back from picked up to notified.
\<close>

theorem status_goes_back_in_race:
  "map status (cards (run_events (take 2 sample_race) (boot [sample_waiting]))) = [picked_up] \<and>
   map status (cards (run_events (take 3 sample_race) (boot [sample_waiting]))) = [email_sent] \<and>
   rank email_sent < rank picked_up"
  by (simp add: race_simps)

text \<open>
  C10 holds in its first half and not in its second. With two cards that carry the
  same code and box, the lookup returns the one inserted first. In the schedule
  \<open>sample_race\<close> that first card is picked up by the first pickup request, yet the
  last pickup request with the pair is answered \<open>ok: true\<close> for the first card again
  instead of \<open>already_picked_up\<close>, because the set-email handler has put the card back
  to \<open>email_sent\<close> in between. The second card is not touched.
\<close>

theorem shared_code_ok_again_in_race:
  "findCardByPickupCode ''1234'' ''BOX_1'' [sample_waiting, sample_second] = Some sample_waiting \<and>
   map status (cards (run_events (take 2 sample_race) (boot [sample_waiting, sample_second])))
     = [picked_up, waiting_for_email] \<and>
   last (answers (run_events sample_race (boot [sample_waiting, sample_second])))
     = PickupAnswer (PickupOk ''a1b2c3d4-0000-4000-8000-000000000001'') \<and>
   map status (cards (run_events sample_race (boot [sample_waiting, sample_second])))
     = [picked_up, waiting_for_email]"
  by (simp add: race_simps)

section \<open>Photo intake\<close>

lemma getEmailByRedId_truthy: "getEmailByRedId x = Some e \<Longrightarrow> truthy_email (Some e)"
  by (auto simp: getEmailByRedId_def or_null_email_def split: if_splits)

lemma or_null_email_truthy: "truthy_email v \<Longrightarrow> or_null_email v = v"
  by (simp add: or_null_email_def)

lemma or_null_email_None [simp]: "or_null_email None = None"
  by (simp add: or_null_email_def truthy_email_def)

lemma select_redId_truthy: "select_redId m i = Some r \<Longrightarrow> r \<noteq> []"
  by (auto simp: select_redId_def or_else_def or_null_def truthy_def Let_def
        split: if_splits option.splits)

lemma select_redId_manual:
  "trim m \<noteq> [] \<Longrightarrow> select_redId (Some m) i = Some (trim m)"
  by (simp add: select_redId_def or_else_def truthy_def Let_def)

lemma lookup_owner_Some:
  "getEmailByRedId (strip_spaces r) = Some e \<Longrightarrow> r \<noteq> [] \<Longrightarrow>
   lookup_owner (Some r) n = Some \<lparr>o_email = e, o_fullName = or_null n, o_redId = strip_spaces r\<rparr>"
  by (auto simp: lookup_owner_def Let_def dest: getEmailByRedId_truthy)

lemma lookup_owner_None:
  "getEmailByRedId (strip_spaces r) = None \<Longrightarrow> lookup_owner (Some r) n = None"
  by (auto simp: lookup_owner_def Let_def)

lemma lookup_owner_no_redId [simp]: "lookup_owner None n = None"
  by (simp add: lookup_owner_def)

lemma pick_digit_shape:
  assumes "0 \<le> r" "r < 1"
  shows "length (pick_digit r) = 1 \<and> set (pick_digit r) \<subseteq> {CHR ''1'', CHR ''2'', CHR ''3'', CHR ''4''}"
  using pick_digit_in_range [OF assms] by auto

lemma generatePickupCode_alphabet:
  assumes "\<forall>i<4. 0 \<le> rnd i \<and> rnd i < 1"
  shows "length (generatePickupCode rnd 4) = 4 \<and>
         set (generatePickupCode rnd 4) \<subseteq> {CHR ''1'', CHR ''2'', CHR ''3'', CHR ''4''}"
proof -
  have d: "length (pick_digit (rnd i)) = 1 \<and>
           set (pick_digit (rnd i)) \<subseteq> {CHR ''1'', CHR ''2'', CHR ''3'', CHR ''4''}" if "i < 4" for i
    using assms that by (intro pick_digit_shape) auto
  have l: "length (generatePickupCode rnd 4) = 4"
    using d [of 0] d [of 1] d [of 2] d [of 3] by (simp add: generatePickupCode_4)
  have s: "set (generatePickupCode rnd 4) \<subseteq> {CHR ''1'', CHR ''2'', CHR ''3'', CHR ''4''}"
    using d [of 0] d [of 1] d [of 2] d [of 3] by (simp add: generatePickupCode_4)
  from l s show ?thesis ..
qed


lemma photo_result:
  assumes "uuid env \<notin> id_card ` set s" and "req_imagePath req = Some p" and "fileExists env"
  shows "\<exists>body c'. found_card_photo env req s = (PhotoOk body, s @ [c']) \<and>
           id_card c' = uuid env \<and> r_cardId body = uuid env \<and>
           boxId c' = or_null (req_boxId req) \<and>
           pickupCode c' = (if truthy (req_boxId req)
                            then Some (generatePickupCode (random env) 4) else None) \<and>
           r_boxId body = or_null (boxId c') \<and>
           r_pickupCode body = or_null (pickupCode c') \<and>
           (truthy (select_redId (req_manualRedId req) (ocr_info (ocr env))) \<longrightarrow>
              redId c' = or_null (select_redId (req_manualRedId req) (ocr_info (ocr env)))) \<and>
           r_redId body =
             or_null (or_else (or_else (select_redId (req_manualRedId req) (ocr_info (ocr env)))
                                 (redId c')) (redId c')) \<and>
           (case lookup_owner (select_redId (req_manualRedId req) (ocr_info (ocr env)))
                   (select_fullName (ocr_info (ocr env))) of
              None \<Rightarrow> email c' = None \<and> status c' = waiting_for_email \<and>
                        \<not> r_emailSent body \<and> r_emailAddress body = or_null_email None
            | Some ow \<Rightarrow>
                email c' = Some (o_email ow) \<and>
                r_emailAddress body = or_null_email (Some (o_email ow)) \<and>
                r_emailSent body = (notify env = NotifyReturned True) \<and>
                status c' = (if notify env = NotifyReturned True
                             then email_sent else waiting_for_email))"
  using assms
  by (auto simp: found_card_photo_def createCard_def Let_def updateCard_fresh_append
        findCardById_fresh_append assign_def no_updates_def
        split: option.splits notify_outcome.splits bool.splits)


lemma or_null_truthy: "truthy v \<Longrightarrow> or_null v = v"
  by (simp add: or_null_def)

lemma or_null_Some: "x \<noteq> [] \<Longrightarrow> or_null (Some x) = Some x"
  by (simp add: or_null_def truthy_def)

lemma or_else_Some: "x \<noteq> [] \<Longrightarrow> or_else (Some x) b = Some x"
  by (simp add: or_else_def truthy_def)

lemma redid_result:
  assumes "uuid env \<notin> id_card ` set s" and "truthy rid" and "truthy box"
  shows "\<exists>c'. found_card_redid env rid box s =
                 (RedidOk (uuid env) (generatePickupCode (random env) 4), s @ [c']) \<and>
              id_card c' = uuid env \<and> boxId c' = box \<and>
              pickupCode c' = Some (generatePickupCode (random env) 4)"
  using assms
  by (auto simp: found_card_redid_def createCard_def Let_def updateCard_fresh_append
        assign_def no_updates_def truthy_def
        split: option.splits notify_outcome.splits bool.splits)

lemma sample_trim: "trim '' 132264610 '' = ''132264610''"
  by (simp add: trim_def is_space_def)

lemma sample_lookup:
  "getEmailByRedId (strip_spaces ''132264610'') = Some (Address ''ajasti7720@sdsu.edu'')"
  by (simp add: getEmailByRedId_def strip_spaces_def trim_def is_space_def table_lookup_def
        redIdEmailMap_def or_null_email_def truthy_email_def)

text \<open>
  C6. In the photo intake, with a fresh identifier, an uploaded image that exists, an
  identifier in use that the table resolves to an email, and a notification that does
  not succeed (it returns false or throws): the intake still answers 200, the new card
  holds the resolved email and is still \<open>waiting_for_email\<close>, and the answer reports
  \<open>emailSent = false\<close> together with the address.
\<close>

theorem photo_notification_failure:
  assumes "uuid env \<notin> id_card ` set s"
      and "req_imagePath req = Some p" and "fileExists env"
      and "select_redId (req_manualRedId req) (ocr_info (ocr env)) = Some r"
      and "getEmailByRedId (strip_spaces r) = Some e"
      and "notify env \<noteq> NotifyReturned True"
  shows "\<exists>body c'. found_card_photo env req s = (PhotoOk body, s @ [c']) \<and>
           id_card c' = uuid env \<and> r_cardId body = uuid env \<and>
           email c' = Some e \<and> status c' = waiting_for_email \<and>
           r_emailSent body = False \<and> r_emailAddress body = Some e"
proof -
  have r: "r \<noteq> []" using assms(4) by (rule select_redId_truthy)
  have e: "truthy_email (Some e)" using assms(5) by (rule getEmailByRedId_truthy)
  note ow = lookup_owner_Some [OF assms(5) r]
  have oe: "or_null_email (Some e) = Some e" using e by (rule or_null_email_truthy)
  show ?thesis
  proof (cases "notify env")
    case NotifyThrew
    with assms(1-4) ow oe show ?thesis
      by (simp add: found_card_photo_def createCard_def Let_def updateCard_fresh_append
            findCardById_fresh_append assign_def no_updates_def)
  next
    case (NotifyReturned b)
    with assms(6) have "b = False" by auto
    with NotifyReturned assms(1-4) ow oe show ?thesis
      by (simp add: found_card_photo_def createCard_def Let_def updateCard_fresh_append
            findCardById_fresh_append assign_def no_updates_def)
  qed
qed


theorem photo_notification_failure_witness:
  "uuid sample_env_unsent \<notin> id_card ` set [sample_waiting] \<and>
   select_redId (req_manualRedId sample_request_manual) (ocr_info (ocr sample_env_unsent))
     = Some ''132264610'' \<and>
   getEmailByRedId (strip_spaces ''132264610'') = Some (Address ''ajasti7720@sdsu.edu'') \<and>
   notify sample_env_unsent \<noteq> NotifyReturned True \<and>
   (\<exists>body c'.
      found_card_photo sample_env_unsent sample_request_manual [sample_waiting]
        = (PhotoOk body, [sample_waiting] @ [c']) \<and>
      email c' = Some (Address ''ajasti7720@sdsu.edu'') \<and> status c' = waiting_for_email \<and>
      r_emailSent body = False \<and> r_emailAddress body = Some (Address ''ajasti7720@sdsu.edu''))"
proof -
  have h1: "uuid sample_env_unsent \<notin> id_card ` set [sample_waiting]"
    by (simp add: sample_env_unsent_def sample_env_def sample_waiting_def)
  have h2: "req_imagePath sample_request_manual = Some ''uploads/card-1700000000000-42.jpg''"
    by (simp add: sample_request_manual_def sample_request_def)
  have h3: "fileExists sample_env_unsent"
    by (simp add: sample_env_unsent_def sample_env_def)
  have h4: "select_redId (req_manualRedId sample_request_manual)
              (ocr_info (ocr sample_env_unsent)) = Some ''132264610''"
    by (simp add: sample_request_manual_def sample_request_def select_redId_def sample_trim
          or_else_def truthy_def)
  have h6: "notify sample_env_unsent \<noteq> NotifyReturned True"
    by (simp add: sample_env_unsent_def sample_env_def)
  from photo_notification_failure [OF h1 h2 h3 h4 sample_lookup h6] h1 h4 h6 sample_lookup
  show ?thesis by blast
qed

text \<open>
  C2. With a fresh identifier and \<open>Math.random()\<close> values in \<open>[0, 1)\<close>: a photo
  intake with a box, and every box intake, returns with the new card stored under that
  box with a pickup code of exactly four characters, each one of 1, 2, 3, 4, and the
  answer carries the same code. A photo intake with no identifier in use (no manual
  one and none from OCR) leaves the new card \<open>waiting_for_email\<close> and answers
  \<open>emailSent = false\<close>.
\<close>

theorem intake_with_box_has_code:
  assumes "uuid env \<notin> id_card ` set s"
      and "\<forall>i<4. 0 \<le> random env i \<and> random env i < 1"
  shows "(req_imagePath req \<noteq> None \<and> fileExists env \<and> truthy (req_boxId req) \<longrightarrow>
            (\<exists>body c' code. found_card_photo env req s = (PhotoOk body, s @ [c']) \<and>
               boxId c' = req_boxId req \<and> pickupCode c' = Some code \<and>
               r_pickupCode body = Some code \<and> length code = 4 \<and>
               set code \<subseteq> {CHR ''1'', CHR ''2'', CHR ''3'', CHR ''4''})) \<and>
         (req_imagePath req \<noteq> None \<and> fileExists env \<and>
          select_redId (req_manualRedId req) (ocr_info (ocr env)) = None \<longrightarrow>
            (\<exists>body c'. found_card_photo env req s = (PhotoOk body, s @ [c']) \<and>
               status c' = waiting_for_email \<and> r_emailSent body = False)) \<and>
         (truthy rid \<and> truthy box \<longrightarrow>
            (\<exists>c' code. found_card_redid env rid box s = (RedidOk (uuid env) code, s @ [c']) \<and>
               boxId c' = box \<and> pickupCode c' = Some code \<and> length code = 4 \<and>
               set code \<subseteq> {CHR ''1'', CHR ''2'', CHR ''3'', CHR ''4''}))"
proof -
  let ?code = "generatePickupCode (random env) 4"
  note shape = generatePickupCode_alphabet [OF assms(2)]
  have ne: "?code \<noteq> []" by (rule generatePickupCode_nonempty)
  have photo: "\<exists>body c' code. found_card_photo env req s = (PhotoOk body, s @ [c']) \<and>
               boxId c' = req_boxId req \<and> pickupCode c' = Some code \<and>
               r_pickupCode body = Some code \<and> length code = 4 \<and>
               set code \<subseteq> {CHR ''1'', CHR ''2'', CHR ''3'', CHR ''4''}"
    if "req_imagePath req \<noteq> None" "fileExists env" "truthy (req_boxId req)"
  proof -
    from that(1) obtain p where p: "req_imagePath req = Some p" by auto
    from photo_result [OF assms(1) p that(2)] obtain body c' where
      r: "found_card_photo env req s = (PhotoOk body, s @ [c'])"
         "boxId c' = or_null (req_boxId req)"
         "pickupCode c' = (if truthy (req_boxId req) then Some ?code else None)"
         "r_pickupCode body = or_null (pickupCode c')"
      by blast
    from r(2) that(3) have b: "boxId c' = req_boxId req" by (simp add: or_null_truthy)
    from r(3) that(3) have c: "pickupCode c' = Some ?code" by simp
    with r(4) ne have "r_pickupCode body = Some ?code" by (simp add: or_null_Some)
    with r(1) b c shape show ?thesis by blast
  qed
  have noid: "\<exists>body c'. found_card_photo env req s = (PhotoOk body, s @ [c']) \<and>
               status c' = waiting_for_email \<and> r_emailSent body = False"
    if "req_imagePath req \<noteq> None" "fileExists env"
       "select_redId (req_manualRedId req) (ocr_info (ocr env)) = None"
  proof -
    from that(1) obtain p where p: "req_imagePath req = Some p" by auto
    from photo_result [OF assms(1) p that(2)] that(3) show ?thesis
      by (auto simp: lookup_owner_def)
  qed
  have box: "\<exists>c' code. found_card_redid env rid box s = (RedidOk (uuid env) code, s @ [c']) \<and>
               boxId c' = box \<and> pickupCode c' = Some code \<and> length code = 4 \<and>
               set code \<subseteq> {CHR ''1'', CHR ''2'', CHR ''3'', CHR ''4''}"
    if "truthy rid" "truthy box"
    using redid_result [OF assms(1) that] shape by blast
  from photo noid box show ?thesis by blast
qed

theorem intake_with_box_has_code_witness:
  "uuid sample_env \<notin> id_card ` set [sample_waiting] \<and>
   list_all (\<lambda>i. 0 \<le> random sample_env i \<and> random sample_env i < 1) [0, 1, 2, 3] \<and>
   (\<exists>body c' code.
      found_card_photo sample_env sample_request [sample_waiting]
        = (PhotoOk body, [sample_waiting] @ [c']) \<and>
      boxId c' = Some ''BOX_1'' \<and> pickupCode c' = Some code \<and> r_pickupCode body = Some code \<and>
      length code = 4 \<and> set code \<subseteq> {CHR ''1'', CHR ''2'', CHR ''3'', CHR ''4''}) \<and>
   (\<exists>body c'.
      found_card_photo sample_env sample_request [sample_waiting]
        = (PhotoOk body, [sample_waiting] @ [c']) \<and>
      status c' = waiting_for_email \<and> r_emailSent body = False) \<and>
   (\<exists>c' code.
      found_card_redid sample_env (Some ''132264610'') (Some ''BOX_1'') [sample_waiting]
        = (RedidOk (uuid sample_env) code, [sample_waiting] @ [c']) \<and>
      boxId c' = Some ''BOX_1'' \<and> pickupCode c' = Some code \<and> length code = 4 \<and>
      set code \<subseteq> {CHR ''1'', CHR ''2'', CHR ''3'', CHR ''4''})"
proof -
  have h1: "uuid sample_env \<notin> id_card ` set [sample_waiting]"
    by (simp add: sample_env_def sample_waiting_def)
  have h2: "\<forall>i<4. 0 \<le> random sample_env i \<and> random sample_env i < 1"
    by (simp add: sample_env_def)
  have a: "req_imagePath sample_request \<noteq> None \<and> fileExists sample_env \<and>
           truthy (req_boxId sample_request)"
    by (simp add: sample_request_def sample_env_def truthy_def)
  have b: "select_redId (req_manualRedId sample_request) (ocr_info (ocr sample_env)) = None"
    by (simp add: sample_request_def sample_env_def select_redId_def ocr_info_def or_else_def
          truthy_def)
  have c: "truthy (Some ''132264610'') \<and> truthy (Some ''BOX_1'')"
    by (simp add: truthy_def)
  have d: "req_boxId sample_request = Some ''BOX_1''" by (simp add: sample_request_def)
  from intake_with_box_has_code
         [OF h1 h2, of sample_request "Some ''132264610''" "Some ''BOX_1''"] a b c d h1 h2
  show ?thesis by (simp add: sample_env_def)
qed

text \<open>
  C8. A photo intake with a fresh identifier and an existing image always answers 200
  and stores the new card, whatever the OCR step did (thrown, nothing found, or any
  identifier found). When the manual identifier is not blank, the identifier in use, the
  one stored on the card and the one in the answer are the trimmed manual identifier,
  and the email, the \<open>emailSent\<close> flag and the status are those the manual identifier
  resolves to: nothing of it depends on what OCR returned.
\<close>

theorem manual_identifier_wins:
  assumes "uuid env \<notin> id_card ` set s"
      and "req_imagePath req = Some p" and "fileExists env"
  shows "\<exists>body c'. found_card_photo env req s = (PhotoOk body, s @ [c']) \<and>
           id_card c' = uuid env \<and>
           (\<forall>m. req_manualRedId req = Some m \<and> trim m \<noteq> [] \<longrightarrow>
              select_redId (req_manualRedId req) (ocr_info (ocr env)) = Some (trim m) \<and>
              redId c' = Some (trim m) \<and> r_redId body = Some (trim m) \<and>
              email c' = getEmailByRedId (strip_spaces (trim m)) \<and>
              r_emailAddress body = getEmailByRedId (strip_spaces (trim m)) \<and>
              r_emailSent body = (getEmailByRedId (strip_spaces (trim m)) \<noteq> None \<and>
                                  notify env = NotifyReturned True) \<and>
              status c' = (if getEmailByRedId (strip_spaces (trim m)) \<noteq> None \<and>
                              notify env = NotifyReturned True
                           then email_sent else waiting_for_email))"
proof -
  let ?rid = "select_redId (req_manualRedId req) (ocr_info (ocr env))"
  let ?fn = "select_fullName (ocr_info (ocr env))"
  from photo_result [OF assms] obtain body c' where
    r: "found_card_photo env req s = (PhotoOk body, s @ [c'])" "id_card c' = uuid env"
       "truthy ?rid \<longrightarrow> redId c' = or_null ?rid"
       "r_redId body = or_null (or_else (or_else ?rid (redId c')) (redId c'))"
       "case lookup_owner ?rid ?fn of
              None \<Rightarrow> email c' = None \<and> status c' = waiting_for_email \<and>
                        \<not> r_emailSent body \<and> r_emailAddress body = or_null_email None
            | Some ow \<Rightarrow>
                email c' = Some (o_email ow) \<and>
                r_emailAddress body = or_null_email (Some (o_email ow)) \<and>
                r_emailSent body = (notify env = NotifyReturned True) \<and>
                status c' = (if notify env = NotifyReturned True
                             then email_sent else waiting_for_email)"
    by blast
  have manual: "?rid = Some (trim m) \<and>
              redId c' = Some (trim m) \<and> r_redId body = Some (trim m) \<and>
              email c' = getEmailByRedId (strip_spaces (trim m)) \<and>
              r_emailAddress body = getEmailByRedId (strip_spaces (trim m)) \<and>
              r_emailSent body = (getEmailByRedId (strip_spaces (trim m)) \<noteq> None \<and>
                                  notify env = NotifyReturned True) \<and>
              status c' = (if getEmailByRedId (strip_spaces (trim m)) \<noteq> None \<and>
                              notify env = NotifyReturned True
                           then email_sent else waiting_for_email)"
    if m: "req_manualRedId req = Some m" "trim m \<noteq> []" for m
  proof -
    have sel: "?rid = Some (trim m)" using m by (simp add: select_redId_manual)
    then have tr: "truthy ?rid" using m(2) by (simp add: truthy_def)
    from r(3) tr sel m(2) have rd: "redId c' = Some (trim m)" by (simp add: or_null_Some)
    from r(4) sel m(2) have rr: "r_redId body = Some (trim m)"
      by (simp add: or_else_Some or_null_Some)
    show ?thesis
    proof (cases "getEmailByRedId (strip_spaces (trim m))")
      case None
      then have "lookup_owner ?rid ?fn = None" using sel by (simp add: lookup_owner_None)
      with r(5) None sel rd rr show ?thesis by simp
    next
      case (Some e)
      then have "lookup_owner ?rid ?fn =
          Some \<lparr>o_email = e, o_fullName = or_null ?fn, o_redId = strip_spaces (trim m)\<rparr>"
        using sel m(2) by (simp add: lookup_owner_Some)
      moreover have "truthy_email (Some e)" using Some by (rule getEmailByRedId_truthy)
      ultimately show ?thesis using r(5) Some sel rd rr by (simp add: or_null_email_truthy)
    qed
  qed
  from r(1,2) manual show ?thesis by blast
qed

lemma sample_lookup_inherited:
  "getEmailByRedId (strip_spaces (trim ''constructor'')) = Some (Inherited ''constructor'')"
  by (simp add: getEmailByRedId_def strip_spaces_def trim_def is_space_def table_lookup_def
        redIdEmailMap_def inherited_keys_def or_null_email_def truthy_email_def)

theorem manual_identifier_wins_witness:
  "uuid sample_env_ocr \<notin> id_card ` set [sample_waiting] \<and>
   req_manualRedId sample_request_manual = Some '' 132264610 '' \<and>
   trim '' 132264610 '' \<noteq> [] \<and>
   ocr sample_env_ocr = OcrReturned (Some \<lparr>ex_redId = Some ''132274230'',
                                             ex_fullName = Some ''Pat Doe''\<rparr>) \<and>
   (\<exists>body c'.
      found_card_photo sample_env_ocr sample_request_manual [sample_waiting]
        = (PhotoOk body, [sample_waiting] @ [c']) \<and>
      redId c' = Some ''132264610'' \<and> r_redId body = Some ''132264610'' \<and>
      email c' = Some (Address ''ajasti7720@sdsu.edu'') \<and> r_emailSent body \<and>
      status c' = email_sent) \<and>
   req_manualRedId sample_request_inherited = Some ''constructor'' \<and>
   (\<exists>body c'.
      found_card_photo sample_env_ocr sample_request_inherited [sample_waiting]
        = (PhotoOk body, [sample_waiting] @ [c']) \<and>
      redId c' = Some ''constructor'' \<and>
      email c' = Some (Inherited ''constructor'') \<and> r_emailSent body \<and>
      status c' = email_sent)"
proof -
  have h1: "uuid sample_env_ocr \<notin> id_card ` set [sample_waiting]"
    by (simp add: sample_env_ocr_def sample_env_def sample_waiting_def)
  have h2: "req_imagePath sample_request_manual = Some ''uploads/card-1700000000000-42.jpg''"
    by (simp add: sample_request_manual_def sample_request_def)
  have h2': "req_imagePath sample_request_inherited = Some ''uploads/card-1700000000000-42.jpg''"
    by (simp add: sample_request_inherited_def sample_request_def)
  have h3: "fileExists sample_env_ocr"
    by (simp add: sample_env_ocr_def sample_env_def)
  have m: "req_manualRedId sample_request_manual = Some '' 132264610 ''"
    by (simp add: sample_request_manual_def)
  have m': "req_manualRedId sample_request_inherited = Some ''constructor''"
    by (simp add: sample_request_inherited_def)
  have t: "trim '' 132264610 '' \<noteq> []" by (simp add: sample_trim)
  have t': "trim ''constructor'' = ''constructor''" by (simp add: trim_def is_space_def)
  have o: "ocr sample_env_ocr = OcrReturned (Some \<lparr>ex_redId = Some ''132274230'',
                                             ex_fullName = Some ''Pat Doe''\<rparr>)"
    by (simp add: sample_env_ocr_def)
  have n: "notify sample_env_ocr = NotifyReturned True"
    by (simp add: sample_env_ocr_def sample_env_def)
  have a: "\<exists>body c'.
      found_card_photo sample_env_ocr sample_request_manual [sample_waiting]
        = (PhotoOk body, [sample_waiting] @ [c']) \<and>
      redId c' = Some ''132264610'' \<and> r_redId body = Some ''132264610'' \<and>
      email c' = Some (Address ''ajasti7720@sdsu.edu'') \<and> r_emailSent body \<and>
      status c' = email_sent"
    using manual_identifier_wins [OF h1 h2 h3] m t
    by (auto simp: sample_trim sample_lookup n)
  have b: "\<exists>body c'.
      found_card_photo sample_env_ocr sample_request_inherited [sample_waiting]
        = (PhotoOk body, [sample_waiting] @ [c']) \<and>
      redId c' = Some ''constructor'' \<and>
      email c' = Some (Inherited ''constructor'') \<and> r_emailSent body \<and>
      status c' = email_sent"
    using manual_identifier_wins [OF h1 h2' h3] m' sample_lookup_inherited
    by (auto simp: t' n)
  from a b h1 m m' t o show ?thesis by blast
qed

end
